theory Spec2Isabelle
  imports Main "HOL-Library.AList" "HOL-Library.Multiset"
begin

section \<open>YAML documents\<close>

text \<open>
  A parsed scene document is a tree of YAML nodes. Map keys are read by the importer through
  \<^verbatim>\<open>entry.first.Scalar()\<close>, so a map is a list of string keys with their values, in
  document order. A lookup that finds nothing (an undefined node in the C++ API) is
  \<open>None\<close>. A default constructed \<^verbatim>\<open>Node()\<close> carries no value; it is \<open>Null\<close>.
\<close>

type_synonym url = string

datatype node = Null | Scalar string | Sequence "node list" | Map "(string \<times> node) list"

fun IsMap :: "node \<Rightarrow> bool" where
  "IsMap (Map es) = True"
| "IsMap n = False"

fun IsScalar :: "node \<Rightarrow> bool" where
  "IsScalar (Scalar s) = True"
| "IsScalar n = False"

text \<open>\<^verbatim>\<open>node[key]\<close>: the value stored under a key of a map; nothing for any other node.\<close>

fun getKey :: "string \<Rightarrow> node \<Rightarrow> node option" where
  "getKey k (Map es) = map_of es k"
| "getKey k n = None"

text \<open>
  Assignment through \<^verbatim>\<open>target[key]\<close> is \<^const>\<open>AList.update\<close>: an existing key keeps
  its place, a new key is appended.
\<close>

text \<open>\<^verbatim>\<open>node.remove(key)\<close>\<close>

fun removeKey :: "string \<Rightarrow> node \<Rightarrow> node" where
  "removeKey k (Map es) = Map (filter (\<lambda>e. fst e \<noteq> k) es)"
| "removeKey k n = n"

text \<open>The entries a range-for loop over a node visits as key and value pairs.\<close>

fun entriesOf :: "node \<Rightarrow> (string \<times> node) list" where
  "entriesOf (Map es) = es"
| "entriesOf n = []"

subsection \<open>Importer::mergeMapFields\<close>

text \<open>
  When target and import are both maps, every entry of the import is merged into the
  value the target has under the same key; in every other case the import replaces the
  target. A key the target does not have yields an undefined \<^verbatim>\<open>dest\<close>, which is not a
  map, so the import's value is assigned.

  The library assigns nodes by reference: after \<^verbatim>\<open>target = import\<close> the tree shares the node
  with the imported document. The model holds trees by value. The two give the same tree
  as long as no document is merged a second time (the second merge would read a document
  that the first one has changed).
\<close>

fun mergeMapFields :: "node \<Rightarrow> node \<Rightarrow> node"
  and mergeEntries :: "(string \<times> node) list \<Rightarrow> (string \<times> node) list \<Rightarrow> (string \<times> node) list" where
  "mergeMapFields target (Map ies) =
     (case target of Map tes \<Rightarrow> Map (mergeEntries tes ies) | _ \<Rightarrow> Map ies)"
| "mergeMapFields target Null = Null"
| "mergeMapFields target (Scalar s) = Scalar s"
| "mergeMapFields target (Sequence xs) = Sequence xs"
| "mergeEntries tes [] = tes"
| "mergeEntries tes ((key, source) # ies) =
     mergeEntries
       (AList.update key (case map_of tes key of None \<Rightarrow> source
                          | Some dest \<Rightarrow> mergeMapFields dest source) tes) ies"

section \<open>URLs\<close>

text \<open>
  The class \<^verbatim>\<open>Url\<close> is declared in \<^verbatim>\<open>util/url.h\<close>, which the importer includes through
  \<^verbatim>\<open>scene/importer.h\<close>. A URL is identified with its string form. Relative resolution
  (\<^verbatim>\<open>base.resolve(rel)\<close>), the YAML scalar conversions and the order in which a
  \<^verbatim>\<open>std::unordered_map\<close> hands out its keys (given the keys in the order of their insertion)
  are operations of libraries the importer only calls; they are parameters of the model,
  collected in an environment.
\<close>

record env =
  resolve :: "url \<Rightarrow> string \<Rightarrow> url"
  reserved :: "char \<Rightarrow> bool"
  decodesBool :: "string \<Rightarrow> bool"
  decodesDouble :: "string \<Rightarrow> bool"
  containerOrder :: "url list \<Rightarrow> url list"

definition isDelim :: "char \<Rightarrow> bool" where
  "isDelim c = (c = CHR ''/'' \<or> c = CHR ''?'' \<or> c = CHR ''#'')"

text \<open>
  Modelled from the spec: \<^verbatim>\<open>Url::scheme\<close>, \<^verbatim>\<open>Url::netLocation\<close> and \<^verbatim>\<open>Url::path\<close> are not part of
  the importer's source. A URL has the attributes scheme, net-location, path, query and
  fragment: the scheme is the text before the first colon (when no delimiter comes before
  it), the net-location follows the two slashes after the scheme and ends at the next
  delimiter, the path ends at the query or the fragment.
\<close>

definition hasScheme :: "url \<Rightarrow> bool" where
  "hasScheme u = (let p = takeWhile (\<lambda>c. c \<noteq> CHR '':'') u
                  in length p < length u \<and> \<not> list_ex isDelim p)"

definition scheme :: "url \<Rightarrow> string" where
  "scheme u = (if hasScheme u then takeWhile (\<lambda>c. c \<noteq> CHR '':'') u else [])"

definition afterScheme :: "url \<Rightarrow> string" where
  "afterScheme u = (if hasScheme u then drop (Suc (length (scheme u))) u else u)"

definition netLocation :: "url \<Rightarrow> string" where
  "netLocation u =
     (let r = afterScheme u
      in if take 2 r = ''//'' then takeWhile (\<lambda>c. \<not> isDelim c) (drop 2 r) else [])"

definition path :: "url \<Rightarrow> string" where
  "path u =
     (let r = afterScheme u;
          r' = (if take 2 r = ''//'' then dropWhile (\<lambda>c. \<not> isDelim c) (drop 2 r) else r)
      in takeWhile (\<lambda>c. c \<noteq> CHR ''?'' \<and> c \<noteq> CHR ''#'') r')"

text \<open>
  Modelled from the spec: \<^verbatim>\<open>Url::getPathExtension\<close> is not part of the importer's source. The
  extension of a path is the text after the last dot of its last segment, and empty when
  that segment has no dot.
\<close>

definition getPathExtension :: "string \<Rightarrow> string" where
  "getPathExtension p =
     (let seg = rev (takeWhile (\<lambda>c. c \<noteq> CHR ''/'') (rev p))
      in if CHR ''.'' \<in> set seg then rev (takeWhile (\<lambda>c. c \<noteq> CHR ''.'') (rev seg)) else [])"

subsection \<open>Percent-encoding\<close>

definition hexDigit :: "nat \<Rightarrow> char" where
  "hexDigit n = ''0123456789ABCDEF'' ! (n mod 16)"

definition hexValue :: "char \<Rightarrow> nat option" where
  "hexValue c =
     (let n = of_char c :: nat
      in if 48 \<le> n \<and> n \<le> 57 then Some (n - 48)
         else if 65 \<le> n \<and> n \<le> 70 then Some (n - 55)
         else if 97 \<le> n \<and> n \<le> 102 then Some (n - 87)
         else None)"

text \<open>
  Modelled from the spec: \<^verbatim>\<open>Url::escapeReservedCharacters\<close> and
  \<^verbatim>\<open>Url::unEscapeReservedCharacters\<close> are not part of the importer's source. Escaping
  percent-encodes every character of the reserved set (a parameter: the set is fixed by
  the missing code) as a percent sign and two hexadecimal digits; unescaping decodes
  every such triple and copies every other character.
\<close>

fun escapeReservedCharacters :: "(char \<Rightarrow> bool) \<Rightarrow> string \<Rightarrow> string" where
  "escapeReservedCharacters res [] = []"
| "escapeReservedCharacters res (c # cs) =
     (if res c
      then CHR ''%'' # hexDigit (of_char c div 16) # hexDigit (of_char c mod 16)
           # escapeReservedCharacters res cs
      else c # escapeReservedCharacters res cs)"

fun unEscapeReservedCharacters :: "string \<Rightarrow> string" where
  "unEscapeReservedCharacters (c # h # l # cs) =
     (if c = CHR ''%''
      then (case (hexValue h, hexValue l) of
              (Some a, Some b) \<Rightarrow> char_of (16 * a + b) # unEscapeReservedCharacters cs
            | _ \<Rightarrow> c # unEscapeReservedCharacters (h # l # cs))
      else c # unEscapeReservedCharacters (h # l # cs))"
| "unEscapeReservedCharacters cs = cs"

subsection \<open>Zip archive URLs\<close>

definition isZipArchiveUrl :: "url \<Rightarrow> bool" where
  "isZipArchiveUrl u = (getPathExtension (path u) = ''zip'')"

definition getBaseUrlForZipArchive :: "env \<Rightarrow> url \<Rightarrow> url" where
  "getBaseUrlForZipArchive e archiveUrl =
     (let encodedSourceUrl = escapeReservedCharacters (reserved e) archiveUrl
      in ''zip://'' @ encodedSourceUrl)"

definition getArchiveUrlForZipEntry :: "url \<Rightarrow> url" where
  "getArchiveUrlForZipEntry zipEntryUrl =
     (let encodedSourceUrl = netLocation zipEntryUrl
      in unEscapeReservedCharacters encodedSourceUrl)"

text \<open>
  Modelled from the spec: for an archive at \<open>A\<close>, entries are addressed as
  \<^verbatim>\<open>zip://<percent-encoded A>/<entry path>\<close>.
\<close>

definition zipEntryUrl :: "env \<Rightarrow> url \<Rightarrow> string \<Rightarrow> url" where
  "zipEntryUrl e archiveUrl entryPath = getBaseUrlForZipArchive e archiveUrl @ ''/'' @ entryPath"

section \<open>Scene nodes\<close>

text \<open>
  A position inside a document: the keys and sequence indices leading to a node. The
  importer keeps handles to the scalar nodes that may name a texture. Assignment is by
  reference, so the handle of a scalar that a later document overwrites with a scalar of
  its own refers to the new value: the handle goes with the place in the tree, and it is
  recorded as the position. (A handle below a map or sequence that a later document
  replaces as a whole is cut off from the tree; the examples and theorems do not rely on
  positions in that case.)
\<close>

datatype pathElem = Key string | Index nat

type_synonym nodePath = "pathElem list"

fun getPath :: "nodePath \<Rightarrow> node \<Rightarrow> node option" where
  "getPath [] n = Some n"
| "getPath (Key k # p) (Map es) = (case map_of es k of None \<Rightarrow> None | Some v \<Rightarrow> getPath p v)"
| "getPath (Index i # p) (Sequence xs) = (if i < length xs then getPath p (xs ! i) else None)"
| "getPath p n = None"

fun setPath :: "nodePath \<Rightarrow> node \<Rightarrow> node \<Rightarrow> node" where
  "setPath [] v n = v"
| "setPath (Key k # p) v (Map es) =
     (case map_of es k of None \<Rightarrow> Map es
      | Some d \<Rightarrow> Map (AList.update k (setPath p v d) es))"
| "setPath (Index i # p) v (Sequence xs) =
     (if i < length xs then Sequence (xs[i := setPath p v (xs ! i)]) else Sequence xs)"
| "setPath p v n = n"

text \<open>\<^verbatim>\<open>node.Scalar()\<close>: the text of a scalar, and the empty string for any other node.\<close>

fun scalarOf :: "node \<Rightarrow> string" where
  "scalarOf (Scalar s) = s"
| "scalarOf n = []"

record sceneNode =
  yaml :: node
  imports' :: "url list"
  pendingUrlNodes :: "nodePath list"

definition emptySceneNode :: sceneNode where
  "emptySceneNode = \<lparr> yaml = Null, imports' = [], pendingUrlNodes = [] \<rparr>"

definition nodeIsPotentialUrl :: "node \<Rightarrow> bool" where
  "nodeIsPotentialUrl n = (IsScalar n \<and> take 7 (scalarOf n) \<noteq> ''global.'')"

definition nodeIsPotentialTextureUrl :: "env \<Rightarrow> node \<Rightarrow> bool" where
  "nodeIsPotentialTextureUrl e n =
     (if \<not> nodeIsPotentialUrl n then False
      else if decodesBool e (scalarOf n) then False
      else if decodesDouble e (scalarOf n) then False
      else True)"

definition zipBase :: "env \<Rightarrow> url \<Rightarrow> url" where
  "zipBase e baseUrl = (if isZipArchiveUrl baseUrl then getBaseUrlForZipArchive e baseUrl else baseUrl)"

subsection \<open>Importer::getResolvedImportUrls\<close>

fun importScalars :: "node \<Rightarrow> string list" where
  "importScalars (Scalar s) = [s]"
| "importScalars (Sequence xs) = map scalarOf (filter IsScalar xs)"
| "importScalars n = []"

definition getResolvedImportUrls :: "env \<Rightarrow> node \<Rightarrow> url \<Rightarrow> url list" where
  "getResolvedImportUrls e sceneNode baseUrl =
     (let base = zipBase e baseUrl
      in case getKey ''import'' sceneNode of
           None \<Rightarrow> []
         | Some import \<Rightarrow> map (resolve e base) (importScalars import))"

subsection \<open>Importer::getTextureUrlNodes\<close>

definition textureAt :: "env \<Rightarrow> nodePath \<Rightarrow> node \<Rightarrow> nodePath list" where
  "textureAt e pre n =
     (case getKey ''texture'' n of
        None \<Rightarrow> []
      | Some texture \<Rightarrow>
          if nodeIsPotentialTextureUrl e texture then [pre @ [Key ''texture'']] else [])"

definition materialNodes :: "env \<Rightarrow> nodePath \<Rightarrow> node \<Rightarrow> nodePath list" where
  "materialNodes e pre material =
     concat (map (\<lambda>prop. case getKey prop material of
                            None \<Rightarrow> []
                          | Some propNode \<Rightarrow>
                              if \<not> IsMap propNode then []
                              else textureAt e (pre @ [Key prop]) propNode)
                 [''emission'', ''ambient'', ''diffuse'', ''specular'', ''normal''])"

fun sequenceNodes :: "env \<Rightarrow> nodePath \<Rightarrow> nat \<Rightarrow> node list \<Rightarrow> nodePath list" where
  "sequenceNodes e pre i [] = []"
| "sequenceNodes e pre i (u # us) =
     (if nodeIsPotentialTextureUrl e u then [pre @ [Index i]] else [])
     @ sequenceNodes e pre (Suc i) us"

definition uniformNodes :: "env \<Rightarrow> nodePath \<Rightarrow> string \<times> node \<Rightarrow> nodePath list" where
  "uniformNodes e pre uniformEntry =
     (let uniformValue = snd uniformEntry; here = pre @ [Key (fst uniformEntry)]
      in if nodeIsPotentialTextureUrl e uniformValue then [here]
         else case uniformValue of
                Sequence us \<Rightarrow> sequenceNodes e here 0 us
              | _ \<Rightarrow> [])"

definition shaderNodes :: "env \<Rightarrow> nodePath \<Rightarrow> node \<Rightarrow> nodePath list" where
  "shaderNodes e pre style =
     (case getKey ''shaders'' style of
        None \<Rightarrow> []
      | Some shaders \<Rightarrow>
          if \<not> IsMap shaders then []
          else (case getKey ''uniforms'' shaders of
                  None \<Rightarrow> []
                | Some uniforms \<Rightarrow>
                    concat (map (uniformNodes e (pre @ [Key ''shaders'', Key ''uniforms'']))
                                (entriesOf uniforms))))"

text \<open>
  One pass of the loop over the styles. A style that is not a map is skipped; a material
  that is not a map skips the rest of the style, its shaders included.
\<close>

definition styleNodes :: "env \<Rightarrow> string \<times> node \<Rightarrow> nodePath list" where
  "styleNodes e entry =
     (let style = snd entry; pre = [Key ''styles'', Key (fst entry)]
      in if \<not> IsMap style then []
         else textureAt e pre style
              @ (case getKey ''material'' style of
                   None \<Rightarrow> shaderNodes e pre style
                 | Some material \<Rightarrow>
                     if \<not> IsMap material then []
                     else materialNodes e (pre @ [Key ''material'']) material
                          @ shaderNodes e pre style))"

definition getTextureUrlNodes :: "env \<Rightarrow> node \<Rightarrow> nodePath list" where
  "getTextureUrlNodes e root =
     (case getKey ''styles'' root of
        None \<Rightarrow> []
      | Some styles \<Rightarrow> concat (map (styleNodes e) (entriesOf styles)))"

subsection \<open>Importer::resolveSceneUrls\<close>

text \<open>
  The YAML library is not part of the importer's source; three of its behaviours decide
  what \<^verbatim>\<open>resolveSceneUrls\<close> and the last loop of \<^verbatim>\<open>loadSceneData\<close> do with a tree that is not
  shaped as expected. They are taken from the library's documented interface.
  \<^item> \<^verbatim>\<open>node[key]\<close> on a node that is not \<^verbatim>\<open>const\<close>, with a string key, throws \<^verbatim>\<open>BadSubscript\<close>
    on a scalar, turns a null node into an empty map and turns a sequence into a map
    keyed by the indices; a key that is missing is not visible afterwards.
  \<^item> \<^verbatim>\<open>node[key]\<close> on a \<^verbatim>\<open>const\<close> node changes nothing and throws \<^verbatim>\<open>BadSubscript\<close> on a scalar.
  \<^item> A range-for over a sequence yields elements whose \<^verbatim>\<open>second\<close> is an invalid node: a
    subscript or a type test on it throws \<^verbatim>\<open>InvalidNode\<close>. A range-for over a null node or
    a scalar visits nothing.
\<close>

datatype exception = BadSubscript | InvalidNode

definition bindE :: "exception + 'a \<Rightarrow> ('a \<Rightarrow> exception + 'b) \<Rightarrow> exception + 'b" where
  "bindE m f = (case m of Inl x \<Rightarrow> Inl x | Inr a \<Rightarrow> f a)"

text \<open>A loop body that may throw, run over a list: the first exception ends the loop.\<close>

fun traverse :: "('a \<Rightarrow> exception + 'b) \<Rightarrow> 'a list \<Rightarrow> exception + 'b list" where
  "traverse f [] = Inr []"
| "traverse f (x # xs) = bindE (f x) (\<lambda>y. bindE (traverse f xs) (\<lambda>ys. Inr (y # ys)))"

fun decimal :: "nat \<Rightarrow> string" where
  "decimal n = (if n < 10 then [char_of (48 + n)]
                else decimal (n div 10) @ [char_of (48 + n mod 10)])"

declare decimal.simps [simp del]

text \<open>The entries of a node after \<^verbatim>\<open>node[key]\<close> on a node that is not \<^verbatim>\<open>const\<close>.\<close>

fun subscriptMap :: "node \<Rightarrow> exception + (string \<times> node) list" where
  "subscriptMap (Map es) = Inr es"
| "subscriptMap Null = Inr []"
| "subscriptMap (Sequence xs) = Inr (zip (map decimal [0..<length xs]) xs)"
| "subscriptMap (Scalar s) = Inl BadSubscript"

text \<open>The assignment to the node under \<^verbatim>\<open>url\<close>, when it is there and may be a URL.\<close>

definition resolveUrlEntry :: "env \<Rightarrow> url \<Rightarrow> (string \<times> node) list \<Rightarrow> (string \<times> node) list" where
  "resolveUrlEntry e base es =
     (case map_of es ''url'' of
        None \<Rightarrow> es
      | Some urlNode \<Rightarrow>
          if nodeIsPotentialUrl urlNode
          then AList.update ''url'' (Scalar (resolve e base (scalarOf urlNode))) es
          else es)"

definition resolveUrlField :: "env \<Rightarrow> url \<Rightarrow> node \<Rightarrow> node" where
  "resolveUrlField e base n = (case n of Map es \<Rightarrow> Map (resolveUrlEntry e base es) | _ \<Rightarrow> n)"

text \<open>The loop over \<^verbatim>\<open>textures\<close>: \<^verbatim>\<open>texture.second["url"]\<close> with no test of the entry's type.\<close>

definition resolveTextures :: "env \<Rightarrow> url \<Rightarrow> node \<Rightarrow> exception + node" where
  "resolveTextures e base textures =
     (case textures of
        Map es \<Rightarrow>
          bindE (traverse (\<lambda>texture. bindE (subscriptMap (snd texture))
                              (\<lambda>kvs. Inr (fst texture, Map (resolveUrlEntry e base kvs)))) es)
                (\<lambda>es'. Inr (Map es'))
      | Sequence xs \<Rightarrow> if xs = [] then Inr textures else Inl InvalidNode
      | _ \<Rightarrow> Inr textures)"

text \<open>The loop over \<^verbatim>\<open>sources\<close>: an entry that is not a map is skipped.\<close>

definition resolveSources :: "env \<Rightarrow> url \<Rightarrow> node \<Rightarrow> exception + node" where
  "resolveSources e base sources =
     (case sources of
        Map es \<Rightarrow> Inr (Map (map (\<lambda>source. (fst source, resolveUrlField e base (snd source))) es))
      | Sequence xs \<Rightarrow> if xs = [] then Inr sources else Inl InvalidNode
      | _ \<Rightarrow> Inr sources)"

text \<open>
  The loop over \<^verbatim>\<open>fonts\<close>, which runs only for a map. The nodes are \<^verbatim>\<open>const\<close> here: a font
  that is a map has its \<^verbatim>\<open>url\<close> resolved, a font that is a sequence has the \<^verbatim>\<open>url\<close> of each
  element resolved, and an element that is a scalar throws.
\<close>

definition resolveFontNode :: "env \<Rightarrow> url \<Rightarrow> node \<Rightarrow> exception + node" where
  "resolveFontNode e base fontNode =
     (case fontNode of Scalar s \<Rightarrow> Inl BadSubscript | _ \<Rightarrow> Inr (resolveUrlField e base fontNode))"

definition resolveFont :: "env \<Rightarrow> url \<Rightarrow> node \<Rightarrow> exception + node" where
  "resolveFont e base font =
     (case font of
        Map es \<Rightarrow> Inr (resolveUrlField e base font)
      | Sequence fs \<Rightarrow> bindE (traverse (resolveFontNode e base) fs) (\<lambda>fs'. Inr (Sequence fs'))
      | _ \<Rightarrow> Inr font)"

definition resolveFonts :: "env \<Rightarrow> url \<Rightarrow> node \<Rightarrow> exception + node" where
  "resolveFonts e base fonts =
     (case fonts of
        Map fs \<Rightarrow>
          bindE (traverse (\<lambda>font. bindE (resolveFont e base (snd font)) (\<lambda>f. Inr (fst font, f))) fs)
                (\<lambda>fs'. Inr (Map fs'))
      | _ \<Rightarrow> Inr fonts)"

text \<open>A step on the value under a key of the root, when the key is there.\<close>

definition atKey ::
    "string \<Rightarrow> (node \<Rightarrow> exception + node) \<Rightarrow> (string \<times> node) list \<Rightarrow> exception + (string \<times> node) list" where
  "atKey k f es =
     (case map_of es k of
        None \<Rightarrow> Inr es
      | Some v \<Rightarrow> bindE (f v) (\<lambda>v'. Inr (AList.update k v' es)))"

text \<open>
  \<^verbatim>\<open>root["textures"]\<close> comes first, on a root that is not \<^verbatim>\<open>const\<close>; the result is the tree
  after the call, or the exception that leaves it.
\<close>

definition resolveSceneUrls :: "env \<Rightarrow> node \<Rightarrow> url \<Rightarrow> exception + node" where
  "resolveSceneUrls e root baseUrl =
     (let base = zipBase e baseUrl
      in bindE (subscriptMap root) (\<lambda>es.
         bindE (atKey ''textures'' (resolveTextures e base) es) (\<lambda>es1.
         bindE (atKey ''sources'' (resolveSources e base) es1) (\<lambda>es2.
         bindE (atKey ''fonts'' (resolveFonts e base) es2) (\<lambda>es3. Inr (Map es3))))))"

section \<open>The importer\<close>

text \<open>
  What a URL request or a zip read delivers: bytes, which are either a YAML text (given by
  the result of parsing it, \<open>None\<close> when the parser throws) or a zip archive (its entries in
  archive order, each a path and the bytes it decompresses to).
\<close>

datatype data = YamlText "node option" | ZipBytes "(string \<times> data) list"

fun loadNoCopy :: "data \<Rightarrow> node option" where
  "loadNoCopy (YamlText r) = r"
| "loadNoCopy (ZipBytes es) = None"

fun entries :: "data \<Rightarrow> (string \<times> data) list" where
  "entries (ZipBytes es) = es"
| "entries (YamlText r) = []"

datatype urlResponse = Error | Content data

text \<open>
  Where the thread that runs the loop of \<^verbatim>\<open>loadSceneData\<close> stands between two of its steps:
  at the head of the loop, after the pop (the lock is released, the fetch of the popped URL
  is not started yet), or after \<^verbatim>\<open>startUrlRequest\<close> has returned a handle that is not
  recorded yet.
\<close>

datatype loopPc = AtLoopHead | Popped url | Started nat

text \<open>
  The members of \<^verbatim>\<open>Importer\<close>, the place the loop has reached, the callbacks that
  \<^verbatim>\<open>loadSceneData\<close> has handed out and that have not fired yet (at the head of the loop their
  number is \<^verbatim>\<open>activeDownloads\<close>), and three logs that only record what was done: the URLs
  whose fetch was started, the handles passed to \<^verbatim>\<open>cancelUrlRequest\<close>, and the URLs whose
  document was merged into the root. \<^verbatim>\<open>m_sceneNodes\<close> is a list of distinct keys in insertion
  order.
\<close>

record importer =
  m_sceneQueue :: "url list"
  m_sceneNodes :: "(url \<times> sceneNode) list"
  m_canceled :: bool
  m_urlRequests :: "nat list"
  m_zipArchives :: "(url \<times> (string \<times> data) list) list"
  loopAt :: loopPc
  pending :: "url list"
  started :: "url list"
  cancelIssued :: "nat list"
  merged :: "url list"

definition newImporter :: importer where
  "newImporter = \<lparr> m_sceneQueue = [], m_sceneNodes = [], m_canceled = False,
     m_urlRequests = [], m_zipArchives = [], loopAt = AtLoopHead, pending = [], started = [],
     cancelIssued = [], merged = [] \<rparr>"

text \<open>\<^verbatim>\<open>emplace\<close> inserts only when the key is new; \<^verbatim>\<open>operator[]\<close> reads the element it finds or the default one it inserts.\<close>

definition emplace :: "'k \<Rightarrow> 'v \<Rightarrow> ('k \<times> 'v) list \<Rightarrow> ('k \<times> 'v) list" where
  "emplace k v al = (case map_of al k of None \<Rightarrow> al @ [(k, v)] | Some w \<Rightarrow> al)"

definition sceneNodeAt :: "(url \<times> sceneNode) list \<Rightarrow> url \<Rightarrow> sceneNode" where
  "sceneNodeAt al u = (case map_of al u of None \<Rightarrow> emptySceneNode | Some n \<Rightarrow> n)"

subsection \<open>Importer::addSceneYaml\<close>

definition addSceneYaml :: "env \<Rightarrow> url \<Rightarrow> data \<Rightarrow> importer \<Rightarrow> importer" where
  "addSceneYaml e sceneUrl sceneYaml s =
     (let nodes = emplace sceneUrl emptySceneNode (m_sceneNodes s);
          sceneNode = sceneNodeAt nodes sceneUrl
      in case loadNoCopy sceneYaml of
           None \<Rightarrow> s\<lparr>m_sceneNodes := nodes\<rparr>
         | Some y \<Rightarrow>
             if \<not> IsMap y
             then s\<lparr>m_sceneNodes := AList.update sceneUrl (sceneNode\<lparr>yaml := y\<rparr>) nodes\<rparr>
             else
               let urls = getResolvedImportUrls e y sceneUrl;
                   sceneNode' = \<lparr> yaml = removeKey ''import'' y, imports' = urls,
                                  pendingUrlNodes = getTextureUrlNodes e y \<rparr>
               in s\<lparr>m_sceneNodes := AList.update sceneUrl sceneNode' nodes,
                     m_sceneQueue := m_sceneQueue s
                        @ filter (\<lambda>url. map_of nodes url = None) urls\<rparr>)"

subsection \<open>Importer::addSceneData\<close>

definition isBaseSceneFile :: "string \<Rightarrow> bool" where
  "isBaseSceneFile p =
     (let ext = getPathExtension p
      in (ext = ''yaml'' \<or> ext = ''yml'') \<and> CHR ''/'' \<notin> set p)"

text \<open>The loop over the archive's entries that stops at the first base scene file.\<close>

fun findBase :: "(string \<times> data) list \<Rightarrow> (string \<times> data) option" where
  "findBase [] = None"
| "findBase (entry # es) = (if isBaseSceneFile (fst entry) then Some entry else findBase es)"

definition addSceneData :: "env \<Rightarrow> url \<Rightarrow> data \<Rightarrow> importer \<Rightarrow> importer" where
  "addSceneData e sceneUrl sceneData s =
     (if \<not> isZipArchiveUrl sceneUrl then addSceneYaml e sceneUrl sceneData s
      else
        let zipArchive = entries sceneData;
            s' = (case findBase zipArchive of
                    None \<Rightarrow> s
                  | Some entry \<Rightarrow> addSceneYaml e sceneUrl (snd entry) s)
        in s'\<lparr>m_zipArchives := emplace sceneUrl zipArchive (m_zipArchives s')\<rparr>)"

subsection \<open>Importer::readFromZip\<close>

definition readFromZip :: "importer \<Rightarrow> url \<Rightarrow> urlResponse" where
  "readFromZip s u =
     (let source = getArchiveUrlForZipEntry u
      in case map_of (m_zipArchives s) source of
           None \<Rightarrow> Error
         | Some archive \<Rightarrow>
             (case map_of archive (drop 1 (path u)) of
                None \<Rightarrow> Error
              | Some d \<Rightarrow> Content d))"

subsection \<open>Importer::cancelLoading\<close>

definition cancelLoading :: "importer \<Rightarrow> importer" where
  "cancelLoading s = s\<lparr>m_canceled := True, cancelIssued := cancelIssued s @ m_urlRequests s\<rparr>"

subsection \<open>The fetch loop of Importer::loadSceneData\<close>

text \<open>
  The loop runs on one thread; the callbacks and \<^verbatim>\<open>cancelLoading\<close> run on others, each
  under \<^verbatim>\<open>m_sceneMutex\<close>. A run is a sequence of atomic events: the loop takes its next
  step, the callback of the \<open>k\<close>-th outstanding fetch fires with what the URL holds, it fires
  with an error, or the owner cancels. The world maps a URL to the bytes found there.
\<close>

datatype event = MainStep | Deliver nat | Fail nat | Cancel

type_synonym world = "(url \<times> data) list"

text \<open>
  A pass of the loop that finds work is three steps, and the other threads can run
  between them. Under the lock, the last URL of the queue is taken and a placeholder is
  reserved for it. With the lock released, the fetch is started: the callback is handed
  out; a request that goes to the platform returns a handle, which is the number of the
  request, and a read from a zip archive returns to the head of the loop. Under the lock
  again, the handle is recorded.
\<close>

definition popStep :: "importer \<Rightarrow> importer" where
  "popStep s =
     (let nextUrlToImport = last (m_sceneQueue s)
      in s\<lparr>m_sceneQueue := butlast (m_sceneQueue s),
            m_sceneNodes := emplace nextUrlToImport emptySceneNode (m_sceneNodes s),
            loopAt := Popped nextUrlToImport\<rparr>)"

definition startStep :: "url \<Rightarrow> importer \<Rightarrow> importer" where
  "startStep nextUrlToImport s =
     s\<lparr>pending := pending s @ [nextUrlToImport],
       started := started s @ [nextUrlToImport],
       loopAt := (if scheme nextUrlToImport = ''zip'' then AtLoopHead
                  else Started (length (started s)))\<rparr>"

definition recordStep :: "nat \<Rightarrow> importer \<Rightarrow> importer" where
  "recordStep handle s = s\<lparr>m_urlRequests := m_urlRequests s @ [handle], loopAt := AtLoopHead\<rparr>"

text \<open>The next step of the loop's thread, from where it stands.\<close>

definition loopStep :: "importer \<Rightarrow> importer" where
  "loopStep s =
     (case loopAt s of
        AtLoopHead \<Rightarrow> popStep s
      | Popped nextUrlToImport \<Rightarrow> startStep nextUrlToImport s
      | Started handle \<Rightarrow> recordStep handle s)"

text \<open>A whole pass of the loop from its head, when no other thread runs in between.\<close>

definition mainStep :: "importer \<Rightarrow> importer" where
  "mainStep s =
     (let nextUrlToImport = last (m_sceneQueue s);
          s1 = startStep nextUrlToImport (popStep s)
      in case loopAt s1 of Started handle \<Rightarrow> recordStep handle s1 | _ \<Rightarrow> s1)"

definition fetchResponse :: "world \<Rightarrow> importer \<Rightarrow> url \<Rightarrow> urlResponse" where
  "fetchResponse w s u =
     (if scheme u = ''zip'' then readFromZip s u
      else case map_of w u of None \<Rightarrow> Error | Some d \<Rightarrow> Content d)"

definition dropAt :: "nat \<Rightarrow> 'a list \<Rightarrow> 'a list" where
  "dropAt k xs = take k xs @ drop (Suc k) xs"

text \<open>The callback \<^verbatim>\<open>cb\<close> of the \<open>k\<close>-th outstanding fetch, called with a response.\<close>

definition callback :: "env \<Rightarrow> nat \<Rightarrow> urlResponse \<Rightarrow> importer \<Rightarrow> importer" where
  "callback e k response s =
     (let nextUrlToImport = pending s ! k;
          s' = (case response of
                  Error \<Rightarrow> s
                | Content content \<Rightarrow> addSceneData e nextUrlToImport content s)
      in s'\<lparr>pending := dropAt k (pending s')\<rparr>)"

definition blocked :: "importer \<Rightarrow> bool" where
  "blocked s = (m_sceneQueue s = [] \<or> m_canceled s)"

text \<open>The loop stands at its head and finds the queue empty or the importer canceled.\<close>

definition idle :: "importer \<Rightarrow> bool" where
  "idle s = (loopAt s = AtLoopHead \<and> blocked s)"

text \<open>
  The loop, with the events of the run in order. An event that cannot happen in the
  current state (a callback that is not outstanding, a step of the loop while it waits on
  the condition variable) is skipped. When the listed events are used up, the run goes on
  by itself: the loop takes its step whenever it has one, otherwise the oldest outstanding
  callback fires. The loop ends at its head, when it finds nothing to do and no download
  active; the events not yet used are returned. The first argument bounds the number of
  events.
\<close>

fun fetchLoop :: "nat \<Rightarrow> env \<Rightarrow> world \<Rightarrow> event list \<Rightarrow> importer \<Rightarrow> (importer \<times> event list) option" where
  "fetchLoop 0 e w evs s = None"
| "fetchLoop (Suc n) e w [] s =
     (if idle s
      then (if pending s = [] then Some (s, [])
            else fetchLoop n e w [] (callback e 0 (fetchResponse w s (pending s ! 0)) s))
      else fetchLoop n e w [] (loopStep s))"
| "fetchLoop (Suc n) e w (MainStep # evs) s =
     (if idle s
      then (if pending s = [] then Some (s, evs) else fetchLoop n e w evs s)
      else fetchLoop n e w evs (loopStep s))"
| "fetchLoop (Suc n) e w (Deliver k # evs) s =
     (if k < length (pending s)
      then fetchLoop n e w evs (callback e k (fetchResponse w s (pending s ! k)) s)
      else fetchLoop n e w evs s)"
| "fetchLoop (Suc n) e w (Fail k # evs) s =
     (if k < length (pending s)
      then fetchLoop n e w evs (callback e k Error s)
      else fetchLoop n e w evs s)"
| "fetchLoop (Suc n) e w (Cancel # evs) s = fetchLoop n e w evs (cancelLoading s)"

subsection \<open>Importer::importScenesRecursive\<close>

text \<open>
  The recursion over the import graph, with the root tree, the set of imported URLs and
  the importer passed along. The first argument bounds the depth of the recursion. An
  exception thrown by \<^verbatim>\<open>resolveSceneUrls\<close> leaves the recursion.
\<close>

fun importScenesRecursive ::
    "nat \<Rightarrow> env \<Rightarrow> node \<times> url set \<times> importer \<Rightarrow> url
     \<Rightarrow> (exception + node \<times> url set \<times> importer) option"
  and importScenes ::
    "nat \<Rightarrow> env \<Rightarrow> node \<times> url set \<times> importer \<Rightarrow> url list
     \<Rightarrow> (exception + node \<times> url set \<times> importer) option" where
  "importScenesRecursive 0 e st sceneUrl = None"
| "importScenesRecursive (Suc n) e (root, imported, s) sceneUrl =
     (let imported1 = insert sceneUrl imported;
          nodes = emplace sceneUrl emptySceneNode (m_sceneNodes s);
          sceneNode = sceneNodeAt nodes sceneUrl;
          kept = filter (\<lambda>i. i \<notin> imported1) (imports' sceneNode);
          s1 = s\<lparr>m_sceneNodes := AList.update sceneUrl (sceneNode\<lparr>imports' := kept\<rparr>) nodes\<rparr>;
          imported2 = imported1 \<union> set kept
      in case importScenes n e (root, imported2, s1) kept of
           None \<Rightarrow> None
         | Some (Inl x) \<Rightarrow> Some (Inl x)
         | Some (Inr (root', imported', s')) \<Rightarrow>
             let root2 = mergeMapFields root' (yaml (sceneNodeAt (m_sceneNodes s') sceneUrl))
             in (case resolveSceneUrls e root2 sceneUrl of
                   Inl x \<Rightarrow> Some (Inl x)
                 | Inr root3 \<Rightarrow> Some (Inr (root3, imported', s'\<lparr>merged := merged s' @ [sceneUrl]\<rparr>))))"
| "importScenes n e st [] = Some (Inr st)"
| "importScenes n e st (url # urls) =
     (case importScenesRecursive n e st url of
        None \<Rightarrow> None
      | Some (Inl x) \<Rightarrow> Some (Inl x)
      | Some (Inr st') \<Rightarrow> importScenes n e st' urls)"

subsection \<open>Texture references\<close>

text \<open>
  \<^verbatim>\<open>textures[name]\<close> is defined when the merged tree has a \<^verbatim>\<open>textures\<close> map with that key.
\<close>

definition isNamedTexture :: "node option \<Rightarrow> string \<Rightarrow> bool" where
  "isNamedTexture textures name =
     (case textures of None \<Rightarrow> False | Some t \<Rightarrow> getKey name t \<noteq> None)"

definition rewriteTextureNode :: "env \<Rightarrow> node option \<Rightarrow> url \<Rightarrow> node \<Rightarrow> nodePath \<Rightarrow> node" where
  "rewriteTextureNode e textures sceneUrl root p =
     (case getPath p root of
        None \<Rightarrow> root
      | Some n \<Rightarrow>
          if \<not> isNamedTexture textures (scalarOf n)
          then setPath p (Scalar (resolve e sceneUrl (scalarOf n))) root
          else root)"

text \<open>
  The two nested loops as one loop over the recorded positions, each with the base URL of
  the document that recorded it. The scene nodes are visited in the order of the
  container.
\<close>

definition pendingSites :: "env \<Rightarrow> (url \<times> sceneNode) list \<Rightarrow> (url \<times> nodePath) list" where
  "pendingSites e nodes =
     concat (map (\<lambda>sceneUrl. map (Pair (zipBase e sceneUrl))
                                 (pendingUrlNodes (sceneNodeAt nodes sceneUrl)))
                 (containerOrder e (map fst nodes)))"

definition rewriteSites :: "env \<Rightarrow> node option \<Rightarrow> node \<Rightarrow> (url \<times> nodePath) list \<Rightarrow> node" where
  "rewriteSites e tx root sites = foldl (\<lambda>r site. rewriteTextureNode e tx (fst site) r (snd site)) root sites"

text \<open>
  \<^verbatim>\<open>root["textures"]\<close> and, once for every recorded node, \<^verbatim>\<open>textures[node.Scalar()]\<close>, both on
  nodes that are not \<^verbatim>\<open>const\<close>.
\<close>

definition rewriteTextures :: "env \<Rightarrow> node \<Rightarrow> (url \<times> sceneNode) list \<Rightarrow> exception + node" where
  "rewriteTextures e root nodes =
     bindE (subscriptMap root) (\<lambda>es.
       if pendingSites e nodes = [] then Inr (Map es)
       else case map_of es ''textures'' of
              None \<Rightarrow> Inr (rewriteSites e None (Map es) (pendingSites e nodes))
            | Some t \<Rightarrow>
                bindE (subscriptMap t) (\<lambda>tes.
                  Inr (rewriteSites e (Some (Map tes))
                         (Map (AList.update ''textures'' (Map tes) es)) (pendingSites e nodes))))"

subsection \<open>Importer::loadSceneData\<close>

text \<open>Events that arrive after the loop has ended: only a cancel has an effect.\<close>

fun afterLoop :: "event list \<Rightarrow> importer \<Rightarrow> importer" where
  "afterLoop [] s = s"
| "afterLoop (Cancel # evs) s = afterLoop evs (cancelLoading s)"
| "afterLoop (ev # evs) s = afterLoop evs s"

text \<open>
  The scene text is \<open>None\<close> for the empty string. The result is \<open>None\<close> when the bound was
  too small; otherwise it is the exception that leaves the call, or the returned tree
  together with the importer as the call leaves it.
\<close>

definition seedImporter :: "env \<Rightarrow> url \<Rightarrow> data option \<Rightarrow> importer" where
  "seedImporter e sceneUrl sceneYaml =
     (case sceneYaml of
        Some text \<Rightarrow> addSceneYaml e sceneUrl text newImporter
      | None \<Rightarrow> newImporter\<lparr>m_sceneQueue := [sceneUrl]\<rparr>)"

definition loadSceneData ::
    "nat \<Rightarrow> env \<Rightarrow> world \<Rightarrow> event list \<Rightarrow> url \<Rightarrow> data option
     \<Rightarrow> (exception + node \<times> importer) option" where
  "loadSceneData fuel e w evs sceneUrl sceneYaml =
     (case fetchLoop fuel e w evs (seedImporter e sceneUrl sceneYaml) of
        None \<Rightarrow> None
      | Some (s1, rest) \<Rightarrow>
          if m_canceled s1 then Some (Inr (Null, afterLoop rest s1))
          else
            (case importScenesRecursive fuel e (Null, {}, s1) sceneUrl of
               None \<Rightarrow> None
             | Some (Inl x) \<Rightarrow> Some (Inl x)
             | Some (Inr (root, imported, s2)) \<Rightarrow>
                 (case rewriteTextures e root (m_sceneNodes s2) of
                    Inl x \<Rightarrow> Some (Inl x)
                  | Inr root' \<Rightarrow> Some (Inr (root', afterLoop rest (s2\<lparr>m_sceneNodes := []\<rparr>))))))"

section \<open>Map::Impl::setPixelScale\<close>

text \<open>
  The view and the scene are objects of classes whose code is elsewhere; the model takes
  the three members that \<^verbatim>\<open>setPixelScale\<close> calls, and the comparison of two pixel scales
  (\<^verbatim>\<open>==\<close> on \<^verbatim>\<open>float\<close>), as parameters.
\<close>

record ('view, 'scene) mapImpl =
  view :: 'view
  scene :: 'scene

definition setPixelScale ::
    "('f \<Rightarrow> 'f \<Rightarrow> bool) \<Rightarrow> ('view \<Rightarrow> 'f) \<Rightarrow> ('f \<Rightarrow> 'view \<Rightarrow> 'view) \<Rightarrow> ('f \<Rightarrow> 'scene \<Rightarrow> 'scene)
     \<Rightarrow> 'f \<Rightarrow> ('view, 'scene) mapImpl \<Rightarrow> ('view, 'scene) mapImpl" where
  "setPixelScale eq pixelScale viewSetPixelScale sceneSetPixelScale pixelsPerPoint impl =
     (if eq pixelsPerPoint (pixelScale (view impl)) then impl
      else impl\<lparr>view := viewSetPixelScale pixelsPerPoint (view impl),
                scene := sceneSetPixelScale pixelsPerPoint (scene impl)\<rparr>)"

section \<open>Example inputs\<close>

text \<open>
  A small resolver for the examples: a reference with a scheme is absolute; any other
  reference replaces the last segment of the base's path, or becomes the path of a base
  that has none.
\<close>

definition simpleResolve :: "url \<Rightarrow> string \<Rightarrow> url" where
  "simpleResolve base rel =
     (if hasScheme rel then rel
      else if path base = [] then base @ ''/'' @ rel
      else rev (dropWhile (\<lambda>c. c \<noteq> CHR ''/'') (rev base)) @ rel)"

definition unreserved :: "char \<Rightarrow> bool" where
  "unreserved c =
     (let n = of_char c :: nat
      in (48 \<le> n \<and> n \<le> 57) \<or> (65 \<le> n \<and> n \<le> 90) \<or> (97 \<le> n \<and> n \<le> 122)
         \<or> c = CHR ''-'' \<or> c = CHR ''.'' \<or> c = CHR ''_'' \<or> c = CHR ''~'')"

definition simpleEnv :: env where
  "simpleEnv = \<lparr> resolve = simpleResolve, reserved = (\<lambda>c. \<not> unreserved c),
                 decodesBool = (\<lambda>s. s = ''true'' \<or> s = ''false''),
                 decodesDouble = (\<lambda>s. s \<noteq> [] \<and> list_all (\<lambda>c. c \<in> set ''0123456789.'') s),
                 containerOrder = (\<lambda>keys. keys) \<rparr>"

definition sceneDoc :: "string list \<Rightarrow> (string \<times> node) list \<Rightarrow> data" where
  "sceneDoc imps kvs =
     YamlText (Some (Map ((''import'', Sequence (map Scalar imps)) # kvs)))"

definition zipWorld :: world where
  "zipWorld = [(''http://h/s.zip'',
      ZipBytes [(''scene.yaml'', sceneDoc [''sub.yaml''] [(''k'', Scalar ''base'')]),
                (''sub.yaml'', sceneDoc [''more.yaml''] [(''k'', Scalar ''sub'')])])]"




text \<open>The URL whose fetch the loop is about to start.\<close>

definition aboutToStart :: "loopPc \<Rightarrow> url list" where
  "aboutToStart pc = (case pc of Popped nextUrlToImport \<Rightarrow> [nextUrlToImport] | _ \<Rightarrow> [])"

definition chainWorld :: world where
  "chainWorld = [(''http://h/root.yaml'', sceneDoc [''a.yaml''] [(''k'', Scalar ''root'')]),
                 (''http://h/a.yaml'', sceneDoc [] [(''k'', Scalar ''a''), (''ka'', Scalar ''a'')])]"

definition diamondWorld :: world where
  "diamondWorld =
     [(''http://h/root.yaml'', sceneDoc [''a.yaml'', ''b.yaml''] [(''k'', Scalar ''root'')]),
      (''http://h/a.yaml'', sceneDoc [''c.yaml''] [(''k'', Scalar ''a''), (''ka'', Scalar ''a'')]),
      (''http://h/b.yaml'', sceneDoc [''c.yaml''] [(''k'', Scalar ''b''), (''kb'', Scalar ''b'')]),
      (''http://h/c.yaml'', sceneDoc [] [(''k'', Scalar ''c''), (''kc'', Scalar ''c'')])]"

definition duplicateWorld :: world where
  "duplicateWorld =
     [(''http://h/root.yaml'', sceneDoc [''c.yaml'', ''c.yaml''] [(''k'', Scalar ''root'')]),
      (''http://h/c.yaml'', sceneDoc [] [(''k'', Scalar ''c''), (''kc'', Scalar ''c'')])]"

text \<open>
  Two scenes for the rewriting of texture references. In both the root imports
  \<open>sub/b.yaml\<close>, whose style \<open>s\<close> names the texture file \<open>b.png\<close>, and overrides that texture: in
  the first with a reference to a global, in the second with a file of its own.
\<close>

definition styleDoc :: "string list \<Rightarrow> string \<Rightarrow> data" where
  "styleDoc imps texture =
     sceneDoc imps [(''styles'', Map [(''s'', Map [(''texture'', Scalar texture)])])]"

definition overrideWorld :: "string \<Rightarrow> world" where
  "overrideWorld texture =
     [(''http://h/root.yaml'', styleDoc [''sub/b.yaml''] texture),
      (''http://h/sub/b.yaml'', styleDoc [] ''b.png'')]"

text \<open>The scene of the specification with a named texture and a texture file.\<close>

definition textureWorld :: world where
  "textureWorld =
     [(''http://h/d/scene.yaml'',
       sceneDoc []
         [(''textures'', Map [(''pois'', Map [(''url'', Scalar ''http://h/img/pois.png'')])]),
          (''styles'', Map [(''icons'', Map [(''texture'', Scalar ''pois'')]),
                            (''tiles'', Map [(''texture'', Scalar ''img/x.png'')])])])]"






definition cycleWorld :: world where
  "cycleWorld = [(''http://h/root.yaml'', sceneDoc [''a.yaml''] [(''k'', Scalar ''root'')]),
                 (''http://h/a.yaml'', sceneDoc [''root.yaml''] [(''k'', Scalar ''a''), (''ka'', Scalar ''a'')])]"

text \<open>
  The measure of the fetch loop. With \<open>n\<close> URLs of the graph not yet reserved, a callback
  that is outstanding or about to be handed out weighs \<open>3n + 1\<close>, a queued URL that is
  reserved already \<open>3n + 2\<close> and one that is not \<open>3n\<close>: a pop trades a queued URL for a
  callback, a callback trades itself for queued URLs that are not reserved, and the
  multiset of weights falls. The two steps that follow a pop leave the weights as they are
  and bring the loop back to its head.
\<close>

definition known :: "importer \<Rightarrow> url set" where
  "known s = fst ` set (m_sceneNodes s)"











text \<open>One merge step of the recursion: the document is merged into the tree and the URLs of the tree are resolved against the document's URL.\<close>

definition mergeStep :: "env \<Rightarrow> url \<Rightarrow> node \<Rightarrow> node \<Rightarrow> exception + node" where
  "mergeStep e u doc root = resolveSceneUrls e (mergeMapFields root (removeKey ''import'' doc)) u"

















section \<open>Properties\<close>

subsection \<open>The queue of pending URLs\<close>

lemma addSceneYaml_queue_append:
  "\<exists>new. m_sceneQueue (addSceneYaml e u d s) = m_sceneQueue s @ new"
  by (simp add: addSceneYaml_def Let_def split: option.splits)

lemma mainStep_queue:
  "m_sceneQueue (mainStep s) = butlast (m_sceneQueue s)"
  by (simp add: mainStep_def popStep_def startStep_def recordStep_def Let_def)

lemma mainStep_started:
  "started (mainStep s) = started s @ [last (m_sceneQueue s)]"
  by (simp add: mainStep_def popStep_def startStep_def recordStep_def Let_def)

lemma mainStep_pending:
  "pending (mainStep s) = pending s @ [last (m_sceneQueue s)]"
  by (simp add: mainStep_def popStep_def startStep_def recordStep_def Let_def)

text \<open>
  C4, as amended. The queue is a stack: a document's import URLs are pushed at the back,
  and a turn of the loop takes the URL at the back, the one pushed last. So of two
  pending URLs the one enqueued later is reserved and fetched first.
\<close>

theorem sceneQueue_lifo:
  "m_sceneQueue s = q @ [u1] @ mid @ [u2] \<Longrightarrow>
   m_sceneQueue (mainStep s) = q @ [u1] @ mid
   \<and> started (mainStep s) = started s @ [u2]
   \<and> pending (mainStep s) = pending s @ [u2]
   \<and> (\<exists>new. m_sceneQueue (addSceneYaml e u d s) = q @ [u1] @ mid @ [u2] @ new)"
  using addSceneYaml_queue_append [of e u d s]
  by (simp add: mainStep_queue mainStep_started mainStep_pending butlast_append)

theorem sceneQueue_lifo_witness:
  "m_sceneQueue (mainStep (newImporter\<lparr>m_sceneQueue := [''a'', ''b'']\<rparr>)) = [''a'']
   \<and> started (mainStep (newImporter\<lparr>m_sceneQueue := [''a'', ''b'']\<rparr>)) = [''b'']"
  using sceneQueue_lifo [of "newImporter\<lparr>m_sceneQueue := [''a'', ''b'']\<rparr>" "[]" "''a''" "[]" "''b''" simpleEnv "''u''" "YamlText None"]
  by (simp add: newImporter_def)

text \<open>
  The claim as stated fails: the root imports \<open>a.yaml\<close> and then \<open>b.yaml\<close>; both are pending,
  \<open>a.yaml\<close> enqueued first, and the fetch of \<open>b.yaml\<close> is started first.
\<close>

theorem sceneQueue_fifo_counterexample:
  "m_sceneQueue (addSceneYaml simpleEnv ''http://h/root.yaml''
                   (sceneDoc [''a.yaml'', ''b.yaml''] []) newImporter)
     = [''http://h/a.yaml'', ''http://h/b.yaml'']
   \<and> started (mainStep (addSceneYaml simpleEnv ''http://h/root.yaml''
                   (sceneDoc [''a.yaml'', ''b.yaml''] []) newImporter))
     = [''http://h/b.yaml'']"
  by code_simp

subsection \<open>Setting the pixel scale\<close>

text \<open>
  C10. \<^verbatim>\<open>setPixelScale\<close> changes neither the view nor the scene when the argument compares
  equal to the view's pixel scale. When the view reports the pixel scale it was given, a
  second call with the same value finds it there, so two calls in a row leave the map as
  one call does.
\<close>

theorem setPixelScale_idempotent:
  "(eq p (pixelScale (view impl)) \<longrightarrow> setPixelScale eq pixelScale vset sset p impl = impl)
   \<and> ((\<forall>v. eq p (pixelScale (vset p v))) \<longrightarrow>
        setPixelScale eq pixelScale vset sset p (setPixelScale eq pixelScale vset sset p impl)
        = setPixelScale eq pixelScale vset sset p impl)"
  by (simp add: setPixelScale_def)

theorem setPixelScale_idempotent_witness:
  "setPixelScale (=) id (\<lambda>p v. p) (\<lambda>p n. Suc n) (1::int) \<lparr>view = 1, scene = (0::nat)\<rparr>
     = \<lparr>view = 1, scene = 0\<rparr>
   \<and> setPixelScale (=) id (\<lambda>p v. p) (\<lambda>p n. Suc n) (2::int)
       (setPixelScale (=) id (\<lambda>p v. p) (\<lambda>p n. Suc n) 2 \<lparr>view = 1, scene = (0::nat)\<rparr>)
     = \<lparr>view = 2, scene = 1\<rparr>"
  using setPixelScale_idempotent [of "(=)" "1::int" id "\<lparr>view = 1, scene = (0::nat)\<rparr>" "\<lambda>p v. p" "\<lambda>p n. Suc n"]
        setPixelScale_idempotent [of "(=)" "2::int" id "\<lparr>view = 1, scene = (0::nat)\<rparr>" "\<lambda>p v. p" "\<lambda>p n. Suc n"]
  by (simp add: setPixelScale_def)

subsection \<open>Zip archive URLs and base documents\<close>

lemma hexValue_hexDigit: "n < 16 \<Longrightarrow> hexValue (hexDigit n) = Some n"
proof -
  have "\<forall>m\<in>set [0..<16]. hexValue (hexDigit m) = Some m" by code_simp
  then show "n < 16 \<Longrightarrow> hexValue (hexDigit n) = Some n" by simp
qed

lemma hexDigit_not_delim: "\<not> isDelim (hexDigit n)"
proof -
  have "\<forall>m\<in>set [0..<16]. \<not> isDelim (hexDigit m)" by code_simp
  moreover have "hexDigit n = hexDigit (n mod 16)" by (simp add: hexDigit_def)
  moreover have "n mod 16 \<in> set [0..<16]" by simp
  ultimately show ?thesis by metis
qed

lemma unEscape_plain: "c \<noteq> CHR ''%'' \<Longrightarrow> unEscapeReservedCharacters (c # cs) = c # unEscapeReservedCharacters cs"
  by (cases cs rule: unEscapeReservedCharacters.cases) auto

lemma unEscape_escape:
  "res CHR ''%'' \<Longrightarrow> unEscapeReservedCharacters (escapeReservedCharacters res s) = s"
proof (induction s)
  case Nil
  then show ?case by simp
next
  case (Cons c cs)
  show ?case
  proof (cases "res c")
    case True
    have "16 * (of_char c div 16) + of_char c mod 16 = (of_char c :: nat)" by simp
    then have cc: "char_of (16 * (of_char c div 16 :: nat) + of_char c mod 16) = c"
      by (metis char_of_comp_of_char comp_apply id_apply) 
    have "(of_char c :: nat) < 256" by simp
    then have "(of_char c :: nat) div 16 < 16" by linarith
    then show ?thesis using True Cons cc
      by (simp add: hexValue_hexDigit)
  next
    case False
    with Cons.prems have "c \<noteq> CHR ''%''" by auto
    with False Cons show ?thesis by (simp add: unEscape_plain)
  qed
qed

lemma escape_no_delim:
  "(\<forall>c. isDelim c \<longrightarrow> res c) \<Longrightarrow> x \<in> set (escapeReservedCharacters res s) \<Longrightarrow> \<not> isDelim x"
proof (induction s)
  case Nil then show ?case by simp
next
  case (Cons c cs)
  have "\<not> isDelim CHR ''%''" by (simp add: isDelim_def)
  with Cons show ?case
    by (auto simp: hexDigit_not_delim split: if_splits)
qed

lemma netLocation_zip:
  assumes "\<forall>x\<in>set enc. \<not> isDelim x"
  shows "netLocation (''zip://'' @ enc @ ''/'' @ p) = enc"
proof -
  have "hasScheme (''zip://'' @ enc @ ''/'' @ p)"
    by (simp add: hasScheme_def isDelim_def)
  moreover have "scheme (''zip://'' @ enc @ ''/'' @ p) = ''zip''"
    using calculation by (simp add: scheme_def)
  ultimately have "afterScheme (''zip://'' @ enc @ ''/'' @ p) = ''//'' @ enc @ ''/'' @ p"
    by (simp add: afterScheme_def)
  moreover have "takeWhile (\<lambda>c. \<not> isDelim c) (enc @ CHR ''/'' # p) = enc"
    using assms by (simp add: takeWhile_tail isDelim_def)
  ultimately show ?thesis by (simp add: netLocation_def)
qed

text \<open>
  C8. For every archive URL \<open>A\<close> and entry path \<open>p\<close>, the archive URL recovered from the
  entry URL \<^verbatim>\<open>zip://<percent-encoded A>/p\<close> is \<open>A\<close> again, when the percent sign and the
  delimiters that end a net-location are among the characters that escaping encodes.
\<close>

theorem zip_archive_url_roundtrip:
  "reserved e CHR ''%'' \<Longrightarrow> (\<forall>c. isDelim c \<longrightarrow> reserved e c) \<Longrightarrow>
   getArchiveUrlForZipEntry (zipEntryUrl e A p) = A"
proof -
  assume pc: "reserved e CHR ''%''" and dl: "\<forall>c. isDelim c \<longrightarrow> reserved e c"
  have "\<forall>x\<in>set (escapeReservedCharacters (reserved e) A). \<not> isDelim x"
    using escape_no_delim [OF dl] by blast
  then have "netLocation (zipEntryUrl e A p) = escapeReservedCharacters (reserved e) A"
    unfolding zipEntryUrl_def getBaseUrlForZipArchive_def Let_def
    using netLocation_zip [of "escapeReservedCharacters (reserved e) A" p] by simp
  then show ?thesis
    using unEscape_escape [of "reserved e" A] pc
    by (simp add: getArchiveUrlForZipEntry_def)
qed

theorem zip_archive_url_roundtrip_witness:
  "getArchiveUrlForZipEntry (zipEntryUrl simpleEnv ''http://h/a%2Fb c.zip'' ''img/x.png'') = ''http://h/a%2Fb c.zip''"
proof -
  have a: "reserved simpleEnv CHR ''%''" by code_simp
  have b: "\<forall>c. isDelim c \<longrightarrow> reserved simpleEnv c"
    by (auto simp: isDelim_def simpleEnv_def unreserved_def)
  show ?thesis using zip_archive_url_roundtrip [OF a b] by simp
qed

text \<open>
  The condition on the percent sign is needed: were it copied, an archive URL that holds
  an encoded slash would come back with a plain one.
\<close>

lemma roundtrip_needs_percent:
  "getArchiveUrlForZipEntry (zipEntryUrl (simpleEnv\<lparr>reserved := isDelim\<rparr>) ''http://h/a%2Fb.zip'' ''x.yaml'')
   = ''http://h/a/b.zip''"
  by code_simp

lemma findBase_first:
  "(\<forall>x\<in>set pre. \<not> isBaseSceneFile (fst x)) \<Longrightarrow> isBaseSceneFile (fst entry) \<Longrightarrow>
   findBase (pre @ entry # post) = Some entry"
  by (induction pre) auto

lemma findBase_none:
  "(\<forall>x\<in>set es. \<not> isBaseSceneFile (fst x)) \<Longrightarrow> findBase es = None"
  by (induction es) auto

text \<open>
  C9. For the bytes of a zip archive URL, the document handed to \<^verbatim>\<open>addSceneYaml\<close> is the
  first entry, in archive order, whose extension is \<open>yaml\<close> or \<open>yml\<close> and whose path has no
  slash: every entry before it fails that test, no entry after it is looked at, and when
  no entry passes, nothing is parsed. In both cases the archive is kept.
\<close>

theorem addSceneData_zip_base:
  "isZipArchiveUrl u \<Longrightarrow>
   ((\<forall>x\<in>set pre. \<not> isBaseSceneFile (fst x)) \<and> isBaseSceneFile p \<longrightarrow>
      addSceneData e u (ZipBytes (pre @ (p, d) # post)) s
      = (addSceneYaml e u d s)
          \<lparr>m_zipArchives := emplace u (pre @ (p, d) # post) (m_zipArchives (addSceneYaml e u d s))\<rparr>)
   \<and> ((\<forall>x\<in>set es. \<not> isBaseSceneFile (fst x)) \<longrightarrow>
      addSceneData e u (ZipBytes es) s = s\<lparr>m_zipArchives := emplace u es (m_zipArchives s)\<rparr>)
   \<and> (isBaseSceneFile q \<longleftrightarrow>
        (getPathExtension q = ''yaml'' \<or> getPathExtension q = ''yml'') \<and> CHR ''/'' \<notin> set q)"
  using findBase_first [of pre "(p, d)" post] findBase_none [of es]
  by (auto simp: addSceneData_def Let_def isBaseSceneFile_def)

theorem addSceneData_zip_base_witness:
  "yaml (sceneNodeAt (m_sceneNodes (addSceneData simpleEnv ''http://h/s.zip''
      (ZipBytes [(''doc/x.yaml'', YamlText (Some (Map [(''k'', Scalar ''sub'')]))),
                 (''readme.txt'', YamlText (Some (Map [(''k'', Scalar ''txt'')]))),
                 (''scene.yml'', YamlText (Some (Map [(''k'', Scalar ''base'')]))),
                 (''other.yaml'', YamlText (Some (Map [(''k'', Scalar ''second'')])))])
      newImporter)) ''http://h/s.zip'')
   = Map [(''k'', Scalar ''base'')]"
proof -
  have z: "isZipArchiveUrl ''http://h/s.zip''" by code_simp
  have pre: "\<forall>x\<in>set [(''doc/x.yaml'', YamlText (Some (Map [(''k'', Scalar ''sub'')]))),
                 (''readme.txt'', YamlText (Some (Map [(''k'', Scalar ''txt'')])))]. \<not> isBaseSceneFile (fst x)"
    by code_simp
  have b: "isBaseSceneFile ''scene.yml''" by code_simp
  have "yaml (sceneNodeAt (m_sceneNodes (addSceneYaml simpleEnv ''http://h/s.zip''
           (YamlText (Some (Map [(''k'', Scalar ''base'')]))) newImporter)) ''http://h/s.zip'')
        = Map [(''k'', Scalar ''base'')]" by code_simp
  then show ?thesis
    using addSceneData_zip_base [OF z, of "[(''doc/x.yaml'', YamlText (Some (Map [(''k'', Scalar ''sub'')]))),
                 (''readme.txt'', YamlText (Some (Map [(''k'', Scalar ''txt'')])))]" "''scene.yml''"
         simpleEnv "YamlText (Some (Map [(''k'', Scalar ''base'')]))"
         "[(''other.yaml'', YamlText (Some (Map [(''k'', Scalar ''second'')])))]" newImporter] pre b
    by simp
qed


subsection \<open>Cancellation\<close>

lemma addSceneYaml_frame [simp]:
  "m_canceled (addSceneYaml e u d s) = m_canceled s"
  "started (addSceneYaml e u d s) = started s"
  "m_urlRequests (addSceneYaml e u d s) = m_urlRequests s"
  "cancelIssued (addSceneYaml e u d s) = cancelIssued s"
  "pending (addSceneYaml e u d s) = pending s"
  "m_zipArchives (addSceneYaml e u d s) = m_zipArchives s"
  "merged (addSceneYaml e u d s) = merged s"
  "loopAt (addSceneYaml e u d s) = loopAt s"
  by (simp_all add: addSceneYaml_def Let_def split: option.splits)

lemma addSceneData_frame [simp]:
  "m_canceled (addSceneData e u d s) = m_canceled s"
  "started (addSceneData e u d s) = started s"
  "m_urlRequests (addSceneData e u d s) = m_urlRequests s"
  "cancelIssued (addSceneData e u d s) = cancelIssued s"
  "pending (addSceneData e u d s) = pending s"
  "merged (addSceneData e u d s) = merged s"
  "loopAt (addSceneData e u d s) = loopAt s"
  by (simp_all add: addSceneData_def Let_def split: option.splits)

lemma callback_frame [simp]:
  "m_canceled (callback e k r s) = m_canceled s"
  "started (callback e k r s) = started s"
  "m_urlRequests (callback e k r s) = m_urlRequests s"
  "cancelIssued (callback e k r s) = cancelIssued s"
  "pending (callback e k r s) = dropAt k (pending s)"
  "merged (callback e k r s) = merged s"
  "loopAt (callback e k r s) = loopAt s"
  by (simp_all add: callback_def Let_def split: urlResponse.splits)

lemma callback_Error:
  "m_sceneNodes (callback e k Error s) = m_sceneNodes s"
  "m_sceneQueue (callback e k Error s) = m_sceneQueue s"
  "m_zipArchives (callback e k Error s) = m_zipArchives s"
  by (simp_all add: callback_def Let_def)

lemma loopStep_frame [simp]:
  "m_canceled (loopStep s) = m_canceled s"
  "cancelIssued (loopStep s) = cancelIssued s"
  "merged (loopStep s) = merged s"
  "m_zipArchives (loopStep s) = m_zipArchives s"
  by (simp_all add: loopStep_def popStep_def startStep_def recordStep_def Let_def split: loopPc.splits)

lemma cancelLoading_frame [simp]:
  "m_canceled (cancelLoading s)"
  "started (cancelLoading s) = started s"
  "m_sceneQueue (cancelLoading s) = m_sceneQueue s"
  "merged (cancelLoading s) = merged s"
  "loopAt (cancelLoading s) = loopAt s"
  "pending (cancelLoading s) = pending s"
  by (simp_all add: cancelLoading_def)





lemma canceled_not_idle: "m_canceled s \<Longrightarrow> \<not> idle s \<Longrightarrow> loopAt s \<noteq> AtLoopHead"
  by (auto simp: idle_def blocked_def)


lemma loopStep_canceled:
  "m_canceled s \<Longrightarrow> \<not> idle s \<Longrightarrow>
   started (loopStep s) @ aboutToStart (loopAt (loopStep s)) = started s @ aboutToStart (loopAt s)
   \<and> m_sceneQueue (loopStep s) = m_sceneQueue s"
proof -
  assume m: "m_canceled s" and i: "\<not> idle s"
  from canceled_not_idle [OF m i] have h: "loopAt s \<noteq> AtLoopHead" .
  then show ?thesis
    by (cases "loopAt s")
       (auto simp: loopStep_def startStep_def recordStep_def aboutToStart_def)
qed

lemma callback_queue: "\<exists>new. m_sceneQueue (callback e k r s) = m_sceneQueue s @ new"
proof (cases r)
  case Error
  then show ?thesis by (simp add: callback_Error)
next
  case (Content d)
  have y: "\<exists>new. m_sceneQueue (addSceneYaml e u t s) = m_sceneQueue s @ new" for u t
    by (simp add: addSceneYaml_def Let_def split: option.splits)
  have "\<exists>new. m_sceneQueue (addSceneData e u d s) = m_sceneQueue s @ new" for u
    using y by (auto simp: addSceneData_def Let_def split: option.splits)
  with Content show ?thesis by (simp add: callback_def Let_def)
qed

text \<open>In a canceled importer the loop pops nothing: it only finishes the pass it is in.\<close>

lemma fetchLoop_canceled_frame:
  "m_canceled s \<Longrightarrow> fetchLoop n e w evs s = Some (s', rest) \<Longrightarrow>
   m_canceled s' \<and> started s' = started s @ aboutToStart (loopAt s)
   \<and> (\<exists>new. m_sceneQueue s' = m_sceneQueue s @ new) \<and> merged s' = merged s"
proof (induction n e w evs s rule: fetchLoop.induct)
  case (1 e w evs s)
  then show ?case by simp
next
  case (2 n e w s)
  show ?case
  proof (cases "idle s")
    case True
    then have h: "aboutToStart (loopAt s) = []" by (simp add: idle_def aboutToStart_def)
    show ?thesis
    proof (cases "pending s = []")
      case True
      with 2 \<open>idle s\<close> h show ?thesis by simp
    next
      case False
      let ?s = "callback e 0 (fetchResponse w s (pending s ! 0)) s"
      from "2.prems"(2) \<open>idle s\<close> False have r: "fetchLoop n e w [] ?s = Some (s', rest)" by simp
      have "m_canceled ?s" using "2.prems"(1) by simp
      from "2.IH"(1) [OF \<open>idle s\<close> False this r] callback_queue [of e 0 "fetchResponse w s (pending s ! 0)" s]
      show ?thesis by auto
    qed
  next
    case False
    from "2.prems"(2) False have r: "fetchLoop n e w [] (loopStep s) = Some (s', rest)" by simp
    have "m_canceled (loopStep s)" using "2.prems"(1) by simp
    from "2.IH"(2) [OF False this r] loopStep_canceled [OF "2.prems"(1) False]
    show ?thesis by auto
  qed
next
  case (3 n e w evs s)
  show ?case
  proof (cases "idle s")
    case True
    then have h: "aboutToStart (loopAt s) = []" by (simp add: idle_def aboutToStart_def)
    show ?thesis
    proof (cases "pending s = []")
      case True
      with 3 \<open>idle s\<close> h show ?thesis by simp
    next
      case False
      from "3.prems"(2) \<open>idle s\<close> False have r: "fetchLoop n e w evs s = Some (s', rest)" by simp
      from "3.IH"(1) [OF \<open>idle s\<close> False "3.prems"(1) r] show ?thesis .
    qed
  next
    case False
    from "3.prems"(2) False have r: "fetchLoop n e w evs (loopStep s) = Some (s', rest)" by simp
    have "m_canceled (loopStep s)" using "3.prems"(1) by simp
    from "3.IH"(2) [OF False this r] loopStep_canceled [OF "3.prems"(1) False]
    show ?thesis by auto
  qed
next
  case (4 n e w k evs s)
  show ?case
  proof (cases "k < length (pending s)")
    case True
    let ?s = "callback e k (fetchResponse w s (pending s ! k)) s"
    from "4.prems"(2) True have r: "fetchLoop n e w evs ?s = Some (s', rest)" by simp
    have "m_canceled ?s" using "4.prems"(1) by simp
    from "4.IH"(1) [OF True this r] callback_queue [of e k "fetchResponse w s (pending s ! k)" s]
    show ?thesis by auto
  next
    case False
    with 4 show ?thesis by simp
  qed
next
  case (5 n e w k evs s)
  show ?case
  proof (cases "k < length (pending s)")
    case True
    let ?s = "callback e k Error s"
    from "5.prems"(2) True have r: "fetchLoop n e w evs ?s = Some (s', rest)" by simp
    have "m_canceled ?s" using "5.prems"(1) by simp
    from "5.IH"(1) [OF True this r] show ?thesis by (simp add: callback_Error)
  next
    case False
    with 5 show ?thesis by simp
  qed
next
  case (6 n e w evs s)
  from "6.prems"(2) have r: "fetchLoop n e w evs (cancelLoading s) = Some (s', rest)" by simp
  from "6.IH" [OF _ r] show ?case by simp
qed





lemma fetchLoop_merged:
  "fetchLoop n e w evs s = Some (s', rest) \<Longrightarrow> merged s' = merged s"
proof (induction n e w evs s rule: fetchLoop.induct)
  case (1 e w evs s)
  then show ?case by simp
next
  case (2 n e w s)
  show ?case
  proof (cases "idle s")
    case True
    show ?thesis
    proof (cases "pending s = []")
      case True
      with 2 \<open>idle s\<close> show ?thesis by simp
    next
      case False
      from "2.prems" \<open>idle s\<close> False "2.IH"(1) [OF \<open>idle s\<close> False] show ?thesis by simp
    qed
  next
    case False
    from "2.prems" False "2.IH"(2) [OF False] show ?thesis by simp
  qed
next
  case (3 n e w evs s)
  show ?case
  proof (cases "idle s")
    case True
    show ?thesis
    proof (cases "pending s = []")
      case True
      with 3 \<open>idle s\<close> show ?thesis by simp
    next
      case False
      from "3.prems" \<open>idle s\<close> False "3.IH"(1) [OF \<open>idle s\<close> False] show ?thesis by simp
    qed
  next
    case False
    from "3.prems" False "3.IH"(2) [OF False] show ?thesis by simp
  qed
next
  case (4 n e w k evs s)
  show ?case
  proof (cases "k < length (pending s)")
    case True
    from "4.prems" True "4.IH"(1) [OF True] show ?thesis by simp
  next
    case False
    from "4.prems" False "4.IH"(2) [OF False] show ?thesis by simp
  qed
next
  case (5 n e w k evs s)
  show ?case
  proof (cases "k < length (pending s)")
    case True
    from "5.prems" True "5.IH"(1) [OF True] show ?thesis by simp
  next
    case False
    from "5.prems" False "5.IH"(2) [OF False] show ?thesis by simp
  qed
next
  case (6 n e w evs s)
  from "6.prems" "6.IH" show ?case by simp
qed




lemma afterLoop_merged: "merged (afterLoop evs s) = merged s"
  by (induction evs s rule: afterLoop.induct) auto

lemma seed_pending:
  "pending (seedImporter e u y) = []"
  "loopAt (seedImporter e u y) = AtLoopHead"
  "merged (seedImporter e u y) = []"
  by (simp_all add: seedImporter_def newImporter_def split: option.splits)




lemma addSceneYaml_flag:
  "addSceneYaml e u d (s\<lparr>m_canceled := c\<rparr>) = (addSceneYaml e u d s)\<lparr>m_canceled := c\<rparr>"
  by (simp add: addSceneYaml_def Let_def split: option.splits)

lemma addSceneData_flag:
  "addSceneData e u d (s\<lparr>m_canceled := c\<rparr>) = (addSceneData e u d s)\<lparr>m_canceled := c\<rparr>"
  by (simp add: addSceneData_def addSceneYaml_flag Let_def split: option.splits)

lemma callback_flag:
  "callback e k r (s\<lparr>m_canceled := c\<rparr>) = (callback e k r s)\<lparr>m_canceled := c\<rparr>"
  by (cases r) (simp_all add: callback_def addSceneData_flag Let_def)

text \<open>
  C7, as amended. The callback does not look at the cancel flag: on a canceled importer it
  does what it does on one that is not canceled, so bytes delivered after a cancel are
  parsed and stored and their imports are enqueued; only a callback with an error response
  leaves the scene nodes, the queue and the archives as they are. What the cancel stops is
  the loop: from a canceled importer on nothing is popped from the queue, the only fetch
  still started is that of a URL popped before the cancel, and nothing is merged: when
  the loop ends canceled, \<^verbatim>\<open>loadSceneData\<close> returns the empty node.
\<close>

theorem callback_after_cancel:
  "callback e k r (s\<lparr>m_canceled := c\<rparr>) = (callback e k r s)\<lparr>m_canceled := c\<rparr>
   \<and> m_sceneNodes (callback e k Error s) = m_sceneNodes s
   \<and> m_sceneQueue (callback e k Error s) = m_sceneQueue s
   \<and> m_zipArchives (callback e k Error s) = m_zipArchives s
   \<and> (m_canceled s \<longrightarrow> fetchLoop n e w evs s = Some (s', rest) \<longrightarrow>
        m_canceled s' \<and> started s' = started s @ aboutToStart (loopAt s)
        \<and> (\<exists>new. m_sceneQueue s' = m_sceneQueue s @ new) \<and> merged s' = merged s)
   \<and> (fetchLoop n e w evs (seedImporter e u y) = Some (s1, rest1) \<longrightarrow> m_canceled s1 \<longrightarrow>
        loadSceneData n e w evs u y = Some (Inr (Null, afterLoop rest1 s1))
        \<and> merged (afterLoop rest1 s1) = [])"
proof -
  have a: "m_canceled s \<longrightarrow> fetchLoop n e w evs s = Some (s', rest) \<longrightarrow>
        m_canceled s' \<and> started s' = started s @ aboutToStart (loopAt s)
        \<and> (\<exists>new. m_sceneQueue s' = m_sceneQueue s @ new) \<and> merged s' = merged s"
    using fetchLoop_canceled_frame [of s n e w evs s' rest] by blast
  have b: "fetchLoop n e w evs (seedImporter e u y) = Some (s1, rest1) \<longrightarrow> m_canceled s1 \<longrightarrow>
        loadSceneData n e w evs u y = Some (Inr (Null, afterLoop rest1 s1))
        \<and> merged (afterLoop rest1 s1) = []"
  proof (intro impI)
    assume r: "fetchLoop n e w evs (seedImporter e u y) = Some (s1, rest1)" and c: "m_canceled s1"
    from fetchLoop_merged [OF r] have "merged s1 = []" by (simp add: seed_pending)
    with r c show "loadSceneData n e w evs u y = Some (Inr (Null, afterLoop rest1 s1))
        \<and> merged (afterLoop rest1 s1) = []"
      by (simp add: loadSceneData_def afterLoop_merged)
  qed
  from a b show ?thesis by (simp add: callback_Error callback_flag)
qed

text \<open>
  The claim as stated fails: a read from a zip archive is outstanding when the owner
  cancels; its callback then delivers the entry, which is parsed and stored in the
  placeholder, and its import is enqueued.
\<close>

theorem callback_after_cancel_counterexample:
  "(let s1 = mainStep (seedImporter simpleEnv ''http://h/s.zip'' None);
        s2 = callback simpleEnv 0 (fetchResponse zipWorld s1 ''http://h/s.zip'') s1;
        s3 = mainStep s2;
        s4 = cancelLoading s3;
        s5 = callback simpleEnv 0 (fetchResponse zipWorld s4 (pending s4 ! 0)) s4
    in (m_canceled s4, pending s4,
        map (yaml \<circ> snd) (m_sceneNodes s4), map (yaml \<circ> snd) (m_sceneNodes s5),
        m_sceneQueue s4, m_sceneQueue s5))
   = (True, [''zip://http%3A%2F%2Fh%2Fs.zip/sub.yaml''],
      [Map [(''k'', Scalar ''base'')], Null],
      [Map [(''k'', Scalar ''base'')], Map [(''k'', Scalar ''sub'')]],
      [], [''zip://http%3A%2F%2Fh%2Fs.zip/more.yaml''])"
  by code_simp

theorem callback_after_cancel_witness:
  "m_canceled (cancelLoading (popStep (seedImporter simpleEnv ''http://h/root.yaml'' None)))
   \<and> map_option (\<lambda>r. (m_canceled (fst r), started (fst r), m_sceneQueue (fst r), merged (fst r)))
        (fetchLoop 8 simpleEnv chainWorld [MainStep, Cancel, MainStep, Deliver 0]
           (cancelLoading (popStep (seedImporter simpleEnv ''http://h/root.yaml'' None))))
      = Some (True, [''http://h/root.yaml''], [''http://h/a.yaml''], [])
   \<and> map_option (map_sum id (\<lambda>r. (fst r, merged (snd r))))
        (loadSceneData 8 simpleEnv chainWorld [MainStep, Cancel, MainStep, Deliver 0]
           ''http://h/root.yaml'' None)
      = Some (Inr (Null, []))"
proof -
  let ?s = "cancelLoading (popStep (seedImporter simpleEnv ''http://h/root.yaml'' None))"
  let ?evs = "[MainStep, Cancel, MainStep, Deliver 0]"
  have c: "m_canceled ?s" by simp
  have st: "started ?s = []" "aboutToStart (loopAt ?s) = [''http://h/root.yaml'']"
    "m_sceneQueue ?s = []" "merged ?s = []"
    by code_simp+
  have "map_option (\<lambda>r. m_sceneQueue (fst r)) (fetchLoop 8 simpleEnv chainWorld ?evs ?s)
        = Some [''http://h/a.yaml'']"
    by code_simp
  then obtain s' rest where r: "fetchLoop 8 simpleEnv chainWorld ?evs ?s = Some (s', rest)"
    and q: "m_sceneQueue s' = [''http://h/a.yaml'']"
    by auto
  have "map_option (\<lambda>r. m_canceled (fst r))
          (fetchLoop 8 simpleEnv chainWorld ?evs (seedImporter simpleEnv ''http://h/root.yaml'' None))
        = Some True"
    by code_simp
  then obtain s1 rest1
    where r1: "fetchLoop 8 simpleEnv chainWorld ?evs (seedImporter simpleEnv ''http://h/root.yaml'' None)
               = Some (s1, rest1)"
      and c1: "m_canceled s1"
    by auto
  show ?thesis
    using callback_after_cancel [of simpleEnv 0 Error True ?s 8 chainWorld ?evs s' rest
            "''http://h/root.yaml''" None s1 rest1] c st r q r1 c1
    by simp
qed


subsection \<open>Fetching and merging once\<close>

text \<open>
  C2 fails on the code. A document that lists the same import twice has it fetched twice
  and merged twice, whatever the order of the callbacks: both entries are pushed, because
  a URL is marked only when it is popped, and both survive the filter of
  \<^verbatim>\<open>importScenesRecursive\<close>, which only drops what was imported before.
\<close>

theorem duplicate_import_fetched_and_merged_twice:
  "map_option (map_sum id (\<lambda>r. (fst r, started (snd r), merged (snd r))))
     (loadSceneData 40 simpleEnv duplicateWorld [] ''http://h/root.yaml'' None)
   = Some (Inr (Map [(''k'', Scalar ''root''), (''kc'', Scalar ''c'')],
                [''http://h/root.yaml'', ''http://h/c.yaml'', ''http://h/c.yaml''],
                [''http://h/c.yaml'', ''http://h/c.yaml'', ''http://h/root.yaml'']))"
  by code_simp

text \<open>
  In the diamond the shared document is merged once and its key reaches the root; it is
  fetched once when the loop reserves it between the two callbacks that import it, and
  twice when both callbacks run first.
\<close>

lemma diamond_shared_fetched_once:
  "map_option (map_sum id (\<lambda>r. (fst r, started (snd r), merged (snd r))))
     (loadSceneData 40 simpleEnv diamondWorld [] ''http://h/root.yaml'' None)
   = Some (Inr (Map [(''k'', Scalar ''root''), (''kc'', Scalar ''c''), (''ka'', Scalar ''a''),
                     (''kb'', Scalar ''b'')],
                [''http://h/root.yaml'', ''http://h/b.yaml'', ''http://h/a.yaml'', ''http://h/c.yaml''],
                [''http://h/c.yaml'', ''http://h/a.yaml'', ''http://h/b.yaml'', ''http://h/root.yaml'']))"
  by code_simp

lemma diamond_shared_fetched_twice:
  "map_option (map_sum id (\<lambda>r. (fst r, started (snd r), merged (snd r))))
     (loadSceneData 40 simpleEnv diamondWorld
        [MainStep, MainStep, MainStep, Deliver 0, MainStep, MainStep, MainStep,
         MainStep, MainStep, MainStep, Deliver 0, Deliver 0]
        ''http://h/root.yaml'' None)
   = Some (Inr (Map [(''k'', Scalar ''root''), (''kc'', Scalar ''c''), (''ka'', Scalar ''a''),
                     (''kb'', Scalar ''b'')],
                [''http://h/root.yaml'', ''http://h/b.yaml'', ''http://h/a.yaml'', ''http://h/c.yaml'',
                 ''http://h/c.yaml''],
                [''http://h/c.yaml'', ''http://h/a.yaml'', ''http://h/b.yaml'', ''http://h/root.yaml'']))"
  by code_simp

subsection \<open>Rewriting texture references\<close>

text \<open>
  C5 fails on the code. The recorded node is a handle, and the merge assigns by
  reference: when the importing document overrides a texture scalar that the imported
  document recorded, the handle of the imported document refers to the importer's value.
  The root's reference \<open>global.tex\<close>, which the root did not record (it names a global),
  is rewritten as a URL relative to the imported document. When both documents record the
  scalar, the root's file \<open>r.png\<close> is resolved against the document that the container
  hands out first: against the root's URL in one order, against the imported document's
  URL in the other.
\<close>

theorem overridden_texture_resolved_against_import:
  "map_option (map_sum id fst)
     (loadSceneData 20 simpleEnv (overrideWorld ''global.tex'') [] ''http://h/root.yaml'' None)
   = Some (Inr (Map [(''styles'', Map [(''s'', Map [(''texture'', Scalar ''http://h/sub/global.tex'')])])]))
   \<and> map_option (map_sum id fst)
       (loadSceneData 20 simpleEnv (overrideWorld ''r.png'') [] ''http://h/root.yaml'' None)
     = Some (Inr (Map [(''styles'', Map [(''s'', Map [(''texture'', Scalar ''http://h/r.png'')])])]))
   \<and> map_option (map_sum id fst)
       (loadSceneData 20 (simpleEnv\<lparr>containerOrder := rev\<rparr>) (overrideWorld ''r.png'') []
          ''http://h/root.yaml'' None)
     = Some (Inr (Map [(''styles'', Map [(''s'', Map [(''texture'', Scalar ''http://h/sub/r.png'')])])]))"
  by code_simp

text \<open>
  The scenes of the specification, where every recorded scalar is recorded by one
  document and not overridden: the name of a texture stays, a file is resolved against
  the URL of its document, and for a document in a zip archive against the \<open>zip\<close> URL of
  the archive.
\<close>

lemma texture_name_and_url_scenario:
  "map_option (map_sum id fst)
     (loadSceneData 20 simpleEnv textureWorld [] ''http://h/d/scene.yaml'' None)
   = Some (Inr (Map [(''textures'', Map [(''pois'', Map [(''url'', Scalar ''http://h/img/pois.png'')])]),
                     (''styles'', Map [(''icons'', Map [(''texture'', Scalar ''pois'')]),
                                       (''tiles'', Map [(''texture'', Scalar ''http://h/d/img/x.png'')])])]))"
  by code_simp

lemma texture_in_zip_scenario:
  "map_option (map_sum id fst)
     (loadSceneData 20 simpleEnv
        [(''http://h/s.zip'', ZipBytes [(''scene.yaml'', styleDoc [] ''img/x.png'')])] []
        ''http://h/s.zip'' None)
   = Some (Inr (Map [(''styles'', Map [(''s'', Map [(''texture'',
                  Scalar ''zip://http%3A%2F%2Fh%2Fs.zip/img/x.png'')])])]))"
  by code_simp

text \<open>
  A tree that is not shaped as \<^verbatim>\<open>resolveSceneUrls\<close> expects ends the load with an exception:
  a texture that is a scalar instead of a map.
\<close>

lemma scalar_texture_throws:
  "map_option (map_sum id fst)
     (loadSceneData 20 simpleEnv
        [(''http://h/root.yaml'', sceneDoc [] [(''textures'', Map [(''t'', Scalar ''img/t.png'')])])] []
        ''http://h/root.yaml'' None)
   = Some (Inl BadSubscript)"
  by code_simp


subsection \<open>Termination of the fetch loop\<close>

lemma map_of_None_iff: "map_of al k = None \<longleftrightarrow> k \<notin> fst ` set al"
  by (simp add: map_of_eq_None_iff)


lemma known_frame [simp]:
  "known (s\<lparr>m_zipArchives := z\<rparr>) = known s"
  "known (s\<lparr>pending := p\<rparr>) = known s"
  "known (s\<lparr>m_sceneQueue := q\<rparr>) = known s"
  "known (s\<lparr>started := st\<rparr>) = known s"
  "known (s\<lparr>m_urlRequests := r\<rparr>) = known s"
  "known (s\<lparr>m_canceled := c\<rparr>) = known s"
  "known (s\<lparr>cancelIssued := ci\<rparr>) = known s"
  "known (s\<lparr>loopAt := pc\<rparr>) = known s"
  by (simp_all add: known_def)

lemma emplace_known: "k \<in> fst ` set al \<Longrightarrow> emplace k v al = al"
  by (auto simp: emplace_def map_of_None_iff split: option.splits)





































subsection \<open>Termination of the merge\<close>










subsection \<open>Termination of the load\<close>




text \<open>
  The cycle and the self-import of the specification: the load ends, each document is
  merged once, and the root is its own body merged over the imported one.
\<close>

lemma cycle_scenario:
  "map_option (map_sum id (\<lambda>r. (fst r, started (snd r), merged (snd r))))
     (loadSceneData 20 simpleEnv cycleWorld [] ''http://h/root.yaml'' None)
   = Some (Inr (Map [(''k'', Scalar ''root''), (''ka'', Scalar ''a'')],
                [''http://h/root.yaml'', ''http://h/a.yaml''],
                [''http://h/a.yaml'', ''http://h/root.yaml'']))"
  by code_simp

lemma self_import_scenario:
  "map_option (map_sum id (\<lambda>r. (fst r, started (snd r), merged (snd r))))
     (loadSceneData 20 simpleEnv [(''http://h/self.yaml'', sceneDoc [''self.yaml''] [(''k'', Scalar ''v'')])] []
        ''http://h/self.yaml'' None)
   = Some (Inr (Map [(''k'', Scalar ''v'')], [''http://h/self.yaml''], [''http://h/self.yaml'']))"
  by code_simp


subsection \<open>The merge rule\<close>



subsection \<open>Documents with well-shaped URL fields\<close>





















subsection \<open>The linear import chain\<close>

lemma IsMap_removeKey: "IsMap d \<Longrightarrow> IsMap (removeKey k d)"
  by (cases d) auto















text \<open>
  A merge step is the plain deep merge when the merged tree is a map with none of the three
  kinds of URL fields.
\<close>

lemma mergeStep_plain:
  "IsMap (mergeMapFields root (removeKey ''import'' d)) \<Longrightarrow>
   getKey ''textures'' (mergeMapFields root (removeKey ''import'' d)) = None \<Longrightarrow>
   getKey ''sources'' (mergeMapFields root (removeKey ''import'' d)) = None \<Longrightarrow>
   getKey ''fonts'' (mergeMapFields root (removeKey ''import'' d)) = None \<Longrightarrow>
   mergeStep e u d root = Inr (mergeMapFields root (removeKey ''import'' d))"
  by (cases "mergeMapFields root (removeKey ''import'' d)")
     (simp_all add: mergeStep_def resolveSceneUrls_def atKey_def bindE_def Let_def)




end
